theory Spec2Isabelle
  imports Main "HOL-Library.Sublist"
begin

section \<open>Data model of the prompt studio\<close>

text \<open>
  The types \<open>PromptVariable\<close>, \<open>WorkflowStage\<close>, \<open>PromptState\<close> and \<open>PromptArrayKey\<close>
  are imported by \<open>PromptStudio.tsx\<close> from \<open>@/lib/prompt-types\<close>. Their fields are read
  off the uses in \<open>PromptStudio.tsx\<close>: the ids of \<open>textSections\<close> (thirteen string-valued
  keys), the ids of \<open>chipGroups\<close> (four \<open>string[]\<close> keys), \<open>state.variables\<close>,
  \<open>state.workflow\<close>, and the fields the two editors read and write.
  Field names of the two row types carry a prefix, since both have an \<open>id\<close>; the
  key \<open>keywords\<close> is written \<open>keywords'\<close>, the plain word being reserved.
\<close>

record PromptVariable =
  v_id :: string
  v_name :: string
  v_description :: string
  v_example :: "string option"

record WorkflowStage =
  w_id :: string
  w_title :: string
  w_instruction :: string
  w_expectedOutput :: string

text \<open>
  One record gives the key set of \<open>PromptState\<close>; its type parameters are the types of
  the string-valued fields, of the tag sets, of \<open>variables\<close> and of \<open>workflow\<close>, so that
  \<open>Partial<PromptState>\<close> is the same record at other field types.
\<close>

record ('t, 'c, 'v, 'w) PromptFields =
  projectTitle :: 't
  coreObjective :: 't
  targetAudience :: 't
  backgroundContext :: 't
  requiredInputs :: 't
  desiredOutput :: 't
  successCriteria :: 't
  guardrails :: 't
  creativeAngles :: 't
  referenceMaterial :: 't
  evaluationStrategy :: 't
  modelPreferences :: 't
  callToAction :: 't
  toneTraits :: 'c
  styleGuidelines :: 'c
  constraints :: 'c
  keywords' :: 'c
  variables :: 'v
  workflow :: 'w

type_synonym PromptState =
  "(string, string list, PromptVariable list, WorkflowStage list) PromptFields"

text \<open>The string-valued keys, in the order of \<open>textSections\<close>.\<close>

datatype TextKey =
  ProjectTitle | CoreObjective | TargetAudience | BackgroundContext | RequiredInputs
  | DesiredOutput | SuccessCriteria | Guardrails | CreativeAngles | ReferenceMaterial
  | EvaluationStrategy | ModelPreferences | CallToAction

datatype PromptArrayKey = ToneTraits | StyleGuidelines | Constraints | Keywords

datatype VariableField = VarId | VarName | VarDescription | VarExample

datatype StageField = StageId | StageTitle | StageInstruction | StageExpectedOutput

text \<open>\<open>state[key]\<close> and \<open>{ ...state, [key]: value }\<close> at a string-valued key.\<close>

fun getText :: "TextKey \<Rightarrow> ('t, 'c, 'v, 'w) PromptFields \<Rightarrow> 't" where
  "getText ProjectTitle s = projectTitle s"
| "getText CoreObjective s = coreObjective s"
| "getText TargetAudience s = targetAudience s"
| "getText BackgroundContext s = backgroundContext s"
| "getText RequiredInputs s = requiredInputs s"
| "getText DesiredOutput s = desiredOutput s"
| "getText SuccessCriteria s = successCriteria s"
| "getText Guardrails s = guardrails s"
| "getText CreativeAngles s = creativeAngles s"
| "getText ReferenceMaterial s = referenceMaterial s"
| "getText EvaluationStrategy s = evaluationStrategy s"
| "getText ModelPreferences s = modelPreferences s"
| "getText CallToAction s = callToAction s"

fun setText ::
  "TextKey \<Rightarrow> 't \<Rightarrow> ('t, 'c, 'v, 'w) PromptFields \<Rightarrow> ('t, 'c, 'v, 'w) PromptFields" where
  "setText ProjectTitle x s = s\<lparr>projectTitle := x\<rparr>"
| "setText CoreObjective x s = s\<lparr>coreObjective := x\<rparr>"
| "setText TargetAudience x s = s\<lparr>targetAudience := x\<rparr>"
| "setText BackgroundContext x s = s\<lparr>backgroundContext := x\<rparr>"
| "setText RequiredInputs x s = s\<lparr>requiredInputs := x\<rparr>"
| "setText DesiredOutput x s = s\<lparr>desiredOutput := x\<rparr>"
| "setText SuccessCriteria x s = s\<lparr>successCriteria := x\<rparr>"
| "setText Guardrails x s = s\<lparr>guardrails := x\<rparr>"
| "setText CreativeAngles x s = s\<lparr>creativeAngles := x\<rparr>"
| "setText ReferenceMaterial x s = s\<lparr>referenceMaterial := x\<rparr>"
| "setText EvaluationStrategy x s = s\<lparr>evaluationStrategy := x\<rparr>"
| "setText ModelPreferences x s = s\<lparr>modelPreferences := x\<rparr>"
| "setText CallToAction x s = s\<lparr>callToAction := x\<rparr>"

text \<open>\<open>state[key]\<close> and \<open>{ ...state, [key]: value }\<close> at a tag-set key.\<close>

fun getChips :: "PromptArrayKey \<Rightarrow> ('t, 'c, 'v, 'w) PromptFields \<Rightarrow> 'c" where
  "getChips ToneTraits s = toneTraits s"
| "getChips StyleGuidelines s = styleGuidelines s"
| "getChips Constraints s = constraints s"
| "getChips Keywords s = keywords' s"

fun putChips ::
  "PromptArrayKey \<Rightarrow> 'c \<Rightarrow> ('t, 'c, 'v, 'w) PromptFields \<Rightarrow> ('t, 'c, 'v, 'w) PromptFields" where
  "putChips ToneTraits x s = s\<lparr>toneTraits := x\<rparr>"
| "putChips StyleGuidelines x s = s\<lparr>styleGuidelines := x\<rparr>"
| "putChips Constraints x s = s\<lparr>constraints := x\<rparr>"
| "putChips Keywords x s = s\<lparr>keywords' := x\<rparr>"

text \<open>\<open>{ ...variable, [field]: value }\<close> and \<open>{ ...stage, [field]: value }\<close>.\<close>

fun setVariableField :: "VariableField \<Rightarrow> string \<Rightarrow> PromptVariable \<Rightarrow> PromptVariable" where
  "setVariableField VarId x v = v\<lparr>v_id := x\<rparr>"
| "setVariableField VarName x v = v\<lparr>v_name := x\<rparr>"
| "setVariableField VarDescription x v = v\<lparr>v_description := x\<rparr>"
| "setVariableField VarExample x v = v\<lparr>v_example := Some x\<rparr>"

fun setStageField :: "StageField \<Rightarrow> string \<Rightarrow> WorkflowStage \<Rightarrow> WorkflowStage" where
  "setStageField StageId x w = w\<lparr>w_id := x\<rparr>"
| "setStageField StageTitle x w = w\<lparr>w_title := x\<rparr>"
| "setStageField StageInstruction x w = w\<lparr>w_instruction := x\<rparr>"
| "setStageField StageExpectedOutput x w = w\<lparr>w_expectedOutput := x\<rparr>"

section \<open>The reducer\<close>

text \<open>
  \<open>PromptAction\<close> of \<open>PromptStudio.tsx\<close>. The \<open>update\<close> action carries a string value; it is
  given here on the string-valued keys, the keys at which \<open>{ ...state, [key]: value }\<close>
  is again a \<open>PromptState\<close> (its one dispatch site passes the ids of \<open>textSections\<close>).
\<close>

datatype PromptAction =
  Update TextKey string
  | AddChip PromptArrayKey string
  | RemoveChip PromptArrayKey string
  | SetChips PromptArrayKey "string list"
  | Hydrate PromptState
  | AddVariable
  | RemoveVariable string
  | UpdateVariable string VariableField string
  | AddWorkflow
  | RemoveWorkflow string
  | UpdateWorkflow string StageField string

text \<open>
  Modelled from the spec: \<open>createBlankVariable\<close> and \<open>createBlankWorkflowStage\<close> of
  \<open>@/lib/prompt-utils\<close>, which is not among the sources. The spec gives them as
  a new unique id, empty name and description and no example, and as a new unique id,
  empty title, instruction and expected output. The id the call produces is the
  argument \<open>newId\<close>.
\<close>

definition createBlankVariable :: "string \<Rightarrow> PromptVariable" where
  "createBlankVariable newId =
     \<lparr>v_id = newId, v_name = [], v_description = [], v_example = None\<rparr>"

definition createBlankWorkflowStage :: "string \<Rightarrow> WorkflowStage" where
  "createBlankWorkflowStage newId =
     \<lparr>w_id = newId, w_title = [], w_instruction = [], w_expectedOutput = []\<rparr>"

text \<open>
  \<open>reducer\<close>, case by case in the order of the source. \<open>newId\<close> is the id that the call
  of \<open>createBlankVariable()\<close> or \<open>createBlankWorkflowStage()\<close> made by this transition
  returns. The \<open>default\<close> branch of the \<open>switch\<close> has no action type left to reach it.
\<close>

fun reducer :: "string \<Rightarrow> PromptState \<Rightarrow> PromptAction \<Rightarrow> PromptState" where
  "reducer newId state (Update key val) = setText key val state"
| "reducer newId state (AddChip key val) =
     (let existing = getChips key state
      in if val \<in> set existing then state
         else putChips key (existing @ [val]) state)"
| "reducer newId state (RemoveChip key val) =
     putChips key (filter (\<lambda>item. item \<noteq> val) (getChips key state)) state"
| "reducer newId state (SetChips key vals) = putChips key vals state"
| "reducer newId state AddVariable =
     state\<lparr>variables := variables state @ [createBlankVariable newId]\<rparr>"
| "reducer newId state (RemoveVariable i) =
     state\<lparr>variables := filter (\<lambda>variable. v_id variable \<noteq> i) (variables state)\<rparr>"
| "reducer newId state (UpdateVariable i field val) =
     state\<lparr>variables :=
       map (\<lambda>variable. if v_id variable = i then setVariableField field val variable
                       else variable) (variables state)\<rparr>"
| "reducer newId state AddWorkflow =
     state\<lparr>workflow := workflow state @ [createBlankWorkflowStage newId]\<rparr>"
| "reducer newId state (RemoveWorkflow i) =
     state\<lparr>workflow := filter (\<lambda>stage. w_id stage \<noteq> i) (workflow state)\<rparr>"
| "reducer newId state (UpdateWorkflow i field val) =
     state\<lparr>workflow :=
       map (\<lambda>stage. if w_id stage = i then setStageField field val stage else stage)
         (workflow state)\<rparr>"
| "reducer newId state (Hydrate payload) = payload"

text \<open>The invariant of the four tag sets: no entry occurs twice.\<close>

definition tagsUnique :: "PromptState \<Rightarrow> bool" where
  "tagsUnique s \<longleftrightarrow>
     distinct (toneTraits s) \<and> distinct (styleGuidelines s)
     \<and> distinct (constraints s) \<and> distinct (keywords' s)"

text \<open>
  Modelled from the spec: \<open>createDefaultPromptState\<close> of \<open>@/lib/prompt-utils\<close>, which is not
  among the sources. By the spec it returns a snapshot with all free-text fields empty,
  all tag sets empty, one blank variable and one blank workflow stage; the two ids it
  produces are its arguments.
\<close>

definition createDefaultPromptState :: "string \<Rightarrow> string \<Rightarrow> PromptState" where
  "createDefaultPromptState variableId stageId =
     \<lparr>projectTitle = [], coreObjective = [], targetAudience = [], backgroundContext = [],
      requiredInputs = [], desiredOutput = [], successCriteria = [], guardrails = [],
      creativeAngles = [], referenceMaterial = [], evaluationStrategy = [],
      modelPreferences = [], callToAction = [],
      toneTraits = [], styleGuidelines = [], constraints = [], keywords' = [],
      variables = [createBlankVariable variableId],
      workflow = [createBlankWorkflowStage stageId]\<rparr>"

text \<open>A default state to evaluate on.\<close>

definition blankState :: "PromptState" where
  "blankState = createDefaultPromptState ''v1'' ''w1''"

text \<open>
  \<open>keyof PromptState\<close>, the key a branch of the reducer writes in the object it returns
  (\<open>hydrate\<close> copies its payload and names no key), and equality of two states at a key.
\<close>

datatype FieldKey = TextField TextKey | ChipsField PromptArrayKey | VariablesField | WorkflowField

fun written :: "PromptAction \<Rightarrow> FieldKey option" where
  "written (Update key val) = Some (TextField key)"
| "written (AddChip key val) = Some (ChipsField key)"
| "written (RemoveChip key val) = Some (ChipsField key)"
| "written (SetChips key vals) = Some (ChipsField key)"
| "written AddVariable = Some VariablesField"
| "written (RemoveVariable i) = Some VariablesField"
| "written (UpdateVariable i field val) = Some VariablesField"
| "written AddWorkflow = Some WorkflowField"
| "written (RemoveWorkflow i) = Some WorkflowField"
| "written (UpdateWorkflow i field val) = Some WorkflowField"
| "written (Hydrate payload) = None"

fun sameField :: "FieldKey \<Rightarrow> PromptState \<Rightarrow> PromptState \<Rightarrow> bool" where
  "sameField (TextField k) s t \<longleftrightarrow> getText k t = getText k s"
| "sameField (ChipsField k) s t \<longleftrightarrow> getChips k t = getChips k s"
| "sameField VariablesField s t \<longleftrightarrow> variables t = variables s"
| "sameField WorkflowField s t \<longleftrightarrow> workflow t = workflow s"

text \<open>
  What an action brings into the tag sets from outside: the list of \<open>setChips\<close> and the
  payload of \<open>hydrate\<close>, which the reducer stores as they come.
\<close>

fun suppliesUniqueTags :: "PromptAction \<Rightarrow> bool" where
  "suppliesUniqueTags (SetChips key vals) = distinct vals"
| "suppliesUniqueTags (Hydrate payload) = tagsUnique payload"
| "suppliesUniqueTags _ = True"

section \<open>Strings\<close>


definition isWhite :: "char \<Rightarrow> bool" where
  "isWhite c \<longleftrightarrow>
     (9 \<le> (of_char c :: nat) \<and> (of_char c :: nat) \<le> 13) \<or> (of_char c :: nat) = 32"

definition isLowerLetter :: "char \<Rightarrow> bool" where
  "isLowerLetter c \<longleftrightarrow> 97 \<le> (of_char c :: nat) \<and> (of_char c :: nat) \<le> 122"

definition isUpperLetter :: "char \<Rightarrow> bool" where
  "isUpperLetter c \<longleftrightarrow> 65 \<le> (of_char c :: nat) \<and> (of_char c :: nat) \<le> 90"

definition upperChar :: "char \<Rightarrow> char" where
  "upperChar c = (if isLowerLetter c then char_of ((of_char c :: nat) - 32) else c)"

definition lowerChar :: "char \<Rightarrow> char" where
  "lowerChar c = (if isUpperLetter c then char_of ((of_char c :: nat) + 32) else c)"

definition toUpperCase :: "string \<Rightarrow> string" where
  "toUpperCase s = map upperChar s"

definition trim :: "string \<Rightarrow> string" where
  "trim s = rev (dropWhile isWhite (rev (dropWhile isWhite s)))"

text \<open>\<open>value.replace(/\s+/g, "_")\<close>: every maximal run of whitespace becomes one underscore.\<close>

function replaceSpaceRuns :: "string \<Rightarrow> string" where
  "replaceSpaceRuns [] = []"
| "replaceSpaceRuns (c # cs) =
     (if isWhite c then CHR ''_'' # replaceSpaceRuns (dropWhile isWhite cs)
      else c # replaceSpaceRuns cs)"
  by pat_completeness auto
termination
  by (relation "measure length") (auto simp: length_dropWhile_le less_Suc_eq_le)

section \<open>The variables editor\<close>

text \<open>
  The \<open>onChange\<close> handler of the name input in \<open>VariablesEditor\<close>: the action it dispatches
  for the variable of a row and the text of the input.
\<close>

definition normalizeName :: "string \<Rightarrow> string" where
  "normalizeName raw = toUpperCase (replaceSpaceRuns raw)"


text \<open>
  Uppercase-with-underscores normal form, on the modelled range: an ASCII text in which
  no whitespace and no lowercase letter is left.
\<close>

definition isNormalName :: "string \<Rightarrow> bool" where
  "isNormalName n \<longleftrightarrow>
     list_all (\<lambda>c. (of_char c :: nat) < 128 \<and> \<not> isWhite c \<and> \<not> isLowerLetter c) n"

section \<open>Loading a template\<close>

text \<open>
  A property of an object of type \<open>Partial<...>\<close> is absent, or it is an own property
  whose value is a value or \<open>undefined\<close> (\<open>None\<close>). Reading it gives \<open>undefined\<close> when it
  is absent; \<open>a ?? b\<close> is \<open>b\<close> when \<open>a\<close> is \<open>undefined\<close>; spreading the object over a base
  copies every own property, whatever its value.
\<close>

datatype 'a property = Absent | Own "'a option"

definition readProp :: "'a property \<Rightarrow> 'a option" where
  "readProp p = (case p of Absent \<Rightarrow> None | Own x \<Rightarrow> x)"

definition nullish :: "'a option \<Rightarrow> 'a \<Rightarrow> 'a" where
  "nullish a b = (case a of None \<Rightarrow> b | Some x \<Rightarrow> x)"

definition spreadOver :: "'a \<Rightarrow> 'a property \<Rightarrow> 'a option" where
  "spreadOver b p = (case p of Absent \<Rightarrow> Some b | Own x \<Rightarrow> x)"

type_synonym PartialPromptState =
  "(string property, string list property, PromptVariable list property, WorkflowStage list property) PromptFields"

text \<open>
  The object \<open>merged\<close> that \<open>handleLoadTemplate\<close> builds. A string-valued key of it holds a
  string or \<open>undefined\<close>.
\<close>

type_synonym MergedState =
  "(string option, string list, PromptVariable list, WorkflowStage list) PromptFields"

definition merged :: "PromptState \<Rightarrow> PartialPromptState \<Rightarrow> MergedState" where
  "merged base sections =
     \<lparr>projectTitle = spreadOver (projectTitle base) (projectTitle sections),
      coreObjective = spreadOver (coreObjective base) (coreObjective sections),
      targetAudience = spreadOver (targetAudience base) (targetAudience sections),
      backgroundContext = spreadOver (backgroundContext base) (backgroundContext sections),
      requiredInputs = spreadOver (requiredInputs base) (requiredInputs sections),
      desiredOutput = spreadOver (desiredOutput base) (desiredOutput sections),
      successCriteria = spreadOver (successCriteria base) (successCriteria sections),
      guardrails = spreadOver (guardrails base) (guardrails sections),
      creativeAngles = spreadOver (creativeAngles base) (creativeAngles sections),
      referenceMaterial = spreadOver (referenceMaterial base) (referenceMaterial sections),
      evaluationStrategy = spreadOver (evaluationStrategy base) (evaluationStrategy sections),
      modelPreferences = spreadOver (modelPreferences base) (modelPreferences sections),
      callToAction = spreadOver (callToAction base) (callToAction sections),
      toneTraits = nullish (readProp (toneTraits sections)) (toneTraits base),
      styleGuidelines = nullish (readProp (styleGuidelines sections)) (styleGuidelines base),
      constraints = nullish (readProp (constraints sections)) (constraints base),
      keywords' = nullish (readProp (keywords' sections)) (keywords' base),
      variables = nullish (readProp (variables sections)) (variables base),
      workflow = nullish (readProp (workflow sections)) (workflow base)\<rparr>"

text \<open>
  \<open>handleLoadTemplate\<close>: the template with the given id is looked up in \<open>promptTemplates\<close>
  (of \<open>@/data/templates\<close>, an argument here, as is the state \<open>createDefaultPromptState()\<close>
  returns); without one nothing is dispatched (\<open>None\<close>), with one the payload of the
  \<open>hydrate\<close> action is \<open>merged\<close>.
\<close>

record PromptTemplate =
  t_id :: string
  t_sections :: PartialPromptState

definition handleLoadTemplate ::
  "PromptTemplate list \<Rightarrow> PromptState \<Rightarrow> string \<Rightarrow> MergedState option" where
  "handleLoadTemplate promptTemplates base i =
     (case find (\<lambda>entry. t_id entry = i) promptTemplates of
        None \<Rightarrow> None
      | Some template \<Rightarrow> Some (merged base (t_sections template)))"

text \<open>A template's sections with no property at all.\<close>

definition noSections :: "PartialPromptState" where
  "noSections =
     \<lparr>projectTitle = Absent, coreObjective = Absent, targetAudience = Absent,
      backgroundContext = Absent, requiredInputs = Absent, desiredOutput = Absent,
      successCriteria = Absent, guardrails = Absent, creativeAngles = Absent,
      referenceMaterial = Absent, evaluationStrategy = Absent, modelPreferences = Absent,
      callToAction = Absent,
      toneTraits = Absent, styleGuidelines = Absent, constraints = Absent, keywords' = Absent,
      variables = Absent, workflow = Absent\<rparr>"

section \<open>The refine endpoint\<close>

text \<open>
  \<open>PROVIDER_ENDPOINTS[provider]\<close> reads a property of an object literal by a string that
  the request chooses. The literal has two own properties; every other name is looked up
  in \<open>Object.prototype\<close>, whose members are functions (and, for \<open>__proto__\<close>, the prototype
  itself): values that are not strings and that \<open>!endpoint\<close> takes as true.
\<close>

datatype Endpoint = EndpointUrl string | PrototypeMember string

definition objectPrototypeKeys :: "string list" where
  "objectPrototypeKeys =
     [''constructor'', ''__proto__'', ''hasOwnProperty'', ''isPrototypeOf'',
      ''propertyIsEnumerable'', ''toLocaleString'', ''toString'', ''valueOf'',
      ''__defineGetter__'', ''__defineSetter__'', ''__lookupGetter__'', ''__lookupSetter__'']"

definition PROVIDER_ENDPOINTS :: "string \<Rightarrow> Endpoint option" where
  "PROVIDER_ENDPOINTS key =
     (if key = ''openai'' then Some (EndpointUrl ''https://api.openai.com/v1/chat/completions'')
      else if key = ''openrouter''
        then Some (EndpointUrl ''https://openrouter.ai/api/v1/chat/completions'')
      else if key \<in> set objectPrototypeKeys then Some (PrototypeMember key)
      else None)"

text \<open>
  \<open>RefinePayload\<close>; a property that is absent or \<open>undefined\<close> is \<open>None\<close>. The number
  \<open>temperature\<close> is carried as its JSON text, which is all the handler does with it.
\<close>

record RefinePayload =
  prompt :: "string option"
  instructions :: "string option"
  provider :: "string option"
  model :: "string option"
  temperature :: "string option"
  apiKey :: "string option"

text \<open>The first regular expression of \<open>extractRefinedPrompt\<close>, a fenced code block.\<close>

definition isFenceTagChar :: "char \<Rightarrow> bool" where
  "isFenceTagChar c \<longleftrightarrow>
     isLowerLetter c \<or> isUpperLetter c
     \<or> (48 \<le> (of_char c :: nat) \<and> (of_char c :: nat) \<le> 57) \<or> c = CHR ''_'' \<or> c = CHR ''-''"

text \<open>The lazy group: the text up to the first closing fence, if there is one.\<close>

fun untilFence :: "string \<Rightarrow> string option" where
  "untilFence [] = None"
| "untilFence (c # cs) =
     (if prefix ''```'' (c # cs) then Some [] else map_option ((#) c) (untilFence cs))"

text \<open>A match that starts at the head of the string, and the leftmost match.\<close>

definition codeBlockAt :: "string \<Rightarrow> string option" where
  "codeBlockAt s =
     (if prefix ''```'' s
      then (case dropWhile isFenceTagChar (drop 3 s) of
              [] \<Rightarrow> None
            | c # rest \<Rightarrow> if c = CHR 0x0A then untilFence rest else None)
      else None)"

fun codeBlockMatch :: "string \<Rightarrow> string option" where
  "codeBlockMatch [] = None"
| "codeBlockMatch (c # cs) =
     (case codeBlockAt (c # cs) of Some g \<Rightarrow> Some g | None \<Rightarrow> codeBlockMatch cs)"

text \<open>
  The second regular expression, with the flag \<open>i\<close>: one of the two headings in any case,
  then colons and whitespace, then the rest of the text as the group.
\<close>

definition prefixIgnoreCase :: "string \<Rightarrow> string \<Rightarrow> bool" where
  "prefixIgnoreCase lit s \<longleftrightarrow> map lowerChar (take (length lit) s) = map lowerChar lit"

definition finalPromptAt :: "string \<Rightarrow> string option" where
  "finalPromptAt s =
     (if prefixIgnoreCase ''Final Prompt'' s
        then Some (dropWhile (\<lambda>c. c = CHR '':'' \<or> isWhite c) (drop (length ''Final Prompt'') s))
      else if prefixIgnoreCase ''Upgraded Prompt'' s
        then Some (dropWhile (\<lambda>c. c = CHR '':'' \<or> isWhite c) (drop (length ''Upgraded Prompt'') s))
      else None)"

fun finalPromptMatch :: "string \<Rightarrow> string option" where
  "finalPromptMatch [] = None"
| "finalPromptMatch (c # cs) =
     (case finalPromptAt (c # cs) of Some g \<Rightarrow> Some g | None \<Rightarrow> finalPromptMatch cs)"

text \<open>
  \<open>extractRefinedPrompt\<close>. An empty string is false in a condition, so an empty group
  passes on to the next attempt.
\<close>

definition trimmedGroup :: "string option \<Rightarrow> string option" where
  "trimmedGroup m = (case m of None \<Rightarrow> None | Some g \<Rightarrow> if g = [] then None else Some (trim g))"

definition extractRefinedPrompt :: "string option \<Rightarrow> string option" where
  "extractRefinedPrompt content =
     (case content of
        None \<Rightarrow> None
      | Some text \<Rightarrow>
          if text = [] then None
          else (case trimmedGroup (codeBlockMatch text) of
                  Some r \<Rightarrow> Some r
                | None \<Rightarrow> trimmedGroup (finalPromptMatch text)))"

text \<open>
  The call of \<open>fetch\<close> and what the handler reads of its result. The request is what the
  handler sends; the provider is an argument of the handler, a function from the request
  to one of: the call or the reading of the body throws; a response that is not \<open>ok\<close>,
  with its status and the two messages the handler looks for in its body (none when the
  body is not JSON); an \<open>ok\<close> response with \<open>choices[0].message.content\<close>, if any.
\<close>

record FetchRequest =
  fr_url :: string
  fr_headers :: "(string \<times> string) list"
  fr_model :: string
  fr_temperature :: string
  fr_messages :: "(string \<times> string) list"

record ProviderError =
  pe_error_message :: "string option"
  pe_message :: "string option"

datatype FetchResult =
  FetchThrows
  | NotOk nat ProviderError
  | OkContent "string option"

text \<open>The body \<open>{ analysis?, refinedPrompt?, error? }\<close> and the status of a response.\<close>

record RefineResponse =
  analysis :: "string option"
  refinedPrompt :: "string option"
  error :: "string option"
  status :: nat

definition errorResponse :: "string \<Rightarrow> nat \<Rightarrow> RefineResponse" where
  "errorResponse message code =
     \<lparr>analysis = None, refinedPrompt = None, error = Some message, status = code\<rparr>"

text \<open>\<open>a || b\<close> for a string \<open>a\<close> that may be undefined: \<open>b\<close> when \<open>a\<close> is undefined or empty.\<close>

definition orElse :: "string option \<Rightarrow> string \<Rightarrow> string" where
  "orElse a b = (case a of None \<Rightarrow> b | Some s \<Rightarrow> if s = [] then b else s)"

text \<open>
  \<open>POST\<close>. The request body is \<open>None\<close> when \<open>request.json()\<close> throws. A prompt or key
  that is undefined fails its check as the empty string does, so both are read with
  \<open>orElse\<close>. \<open>fetch\<close> of an endpoint that is not a string throws a \<open>TypeError\<close> (its text
  is not a URL), which the handler catches like any other failure of the call.
  The body is taken at its declared type \<open>RefinePayload\<close>: a JSON \<open>null\<close> and a prompt
  that is not a string, on which the handler throws before it answers, are not values of
  that type; and the status of a response that is not \<open>ok\<close> is taken to be one that a
  response with a body may carry.
\<close>

definition POST :: "(FetchRequest \<Rightarrow> FetchResult) \<Rightarrow> RefinePayload option \<Rightarrow> RefineResponse" where
  "POST fetch request =
     (case request of
        None \<Rightarrow> errorResponse ''Invalid JSON payload.'' 400
      | Some payload \<Rightarrow>
          let instructions' =
                nullish (instructions payload)
                  ''Rewrite this prompt to be clearer, safer, and more actionable.'';
              provider' = nullish (provider payload) ''openai'';
              model' = nullish (model payload) ''gpt-4o-mini'';
              temperature' = nullish (temperature payload) ''0.4'';
              prompt' = orElse (prompt payload) [];
              apiKey' = orElse (apiKey payload) []
          in if trim prompt' = []
               then errorResponse ''Prompt is required for refinement.'' 400
             else if apiKey' = []
               then errorResponse ''API key is required to call the selected provider.'' 400
             else (case PROVIDER_ENDPOINTS provider' of
                 None \<Rightarrow> errorResponse (''Unsupported provider: '' @ provider') 400
               | Some endpoint \<Rightarrow>
                   let messages =
                         [(''system'',
                           ''You are an elite prompt engineer. Critique the prompt, describe the upgrades, and then deliver a refined version that maximizes clarity, guardrails, and evaluation instructions.''),
                          (''user'',
                           ''PROMPT TO REFINE:'' @ [CHR 0x0A] @ prompt'
                           @ [CHR 0x0A, CHR 0x0A] @ ''INSTRUCTIONS:'' @ [CHR 0x0A] @ instructions')];
                       result =
                         (case endpoint of
                            PrototypeMember _ \<Rightarrow> FetchThrows
                          | EndpointUrl url \<Rightarrow>
                              fetch \<lparr>fr_url = url,
                                     fr_headers =
                                       [(''Content-Type'', ''application/json''),
                                        (''Authorization'', ''Bearer '' @ apiKey')]
                                       @ (if provider' = ''openrouter''
                                          then [(''HTTP-Referer'', ''https://prompt-maker-ai''),
                                                (''X-Title'', ''Prompt Maker AI'')]
                                          else []),
                                     fr_model = model', fr_temperature = temperature',
                                     fr_messages = messages\<rparr>)
                   in (case result of
                         FetchThrows \<Rightarrow>
                           errorResponse
                             ''Failed to contact the provider. Verify network and credentials.'' 500
                       | NotOk code err \<Rightarrow>
                           errorResponse
                             (orElse (pe_error_message err)
                                (orElse (pe_message err)
                                  ''Provider returned a non-200 response. Check credentials and quota.''))
                             code
                       | OkContent content \<Rightarrow>
                           \<lparr>analysis = content, refinedPrompt = extractRefinedPrompt content,
                            error = None, status = 200\<rparr>)))"

section \<open>The prompt compiler\<close>

text \<open>
  Modelled from the spec: \<open>compilePrompt\<close> of \<open>@/lib/prompt-utils\<close>, which is not among the
  sources. The spec (section 4.2) fixes which sections the document has and in which
  order, not their wording; the document is therefore given as the list of its sections,
  a heading being the key it belongs to. The order of the free-text fields is that of
  \<open>textSections\<close>. Blank means empty after trimming whitespace.
\<close>

definition isBlank :: "string \<Rightarrow> bool" where
  "isBlank s \<longleftrightarrow> trim s = []"

record WorkflowStep =
  step_index :: nat
  step_title :: string
  step_instruction :: string
  step_expectedOutput :: string

record VariableLine =
  line_name :: string
  line_description :: string
  line_example :: "string option"

datatype Section =
  TextSection TextKey string
  | TagSection PromptArrayKey "string list"
  | WorkflowSection "WorkflowStep list"
  | VariablesSection "VariableLine list"

definition textKeys :: "TextKey list" where
  "textKeys =
     [ProjectTitle, CoreObjective, TargetAudience, BackgroundContext, RequiredInputs,
      DesiredOutput, SuccessCriteria, Guardrails, CreativeAngles, ReferenceMaterial,
      EvaluationStrategy, ModelPreferences, CallToAction]"

definition chipKeys :: "PromptArrayKey list" where
  "chipKeys = [ToneTraits, StyleGuidelines, Constraints, Keywords]"

text \<open>Step 1: a heading and the content verbatim for each field that is not blank.\<close>

definition textSectionsOf :: "PromptState \<Rightarrow> Section list" where
  "textSectionsOf s =
     map (\<lambda>k. TextSection k (getText k s)) (filter (\<lambda>k. \<not> isBlank (getText k s)) textKeys)"

text \<open>Step 2: a heading and the tags for each tag set that is not empty.\<close>

definition tagSectionsOf :: "PromptState \<Rightarrow> Section list" where
  "tagSectionsOf s =
     map (\<lambda>k. TagSection k (getChips k s)) (filter (\<lambda>k. getChips k s \<noteq> []) chipKeys)"

text \<open>
  Step 3: a workflow section if some stage has a title or an instruction that is not
  blank. Stages that are entirely blank are skipped; the emitted ones are numbered from 1
  in array order, the numbers being given to the emitted entries only (so the index of a
  step is its position among the emitted steps, as the numbering property of section 8
  has it, and is never the id of the stage).
\<close>

definition stageHasText :: "WorkflowStage \<Rightarrow> bool" where
  "stageHasText w \<longleftrightarrow> \<not> isBlank (w_title w) \<or> \<not> isBlank (w_instruction w)"

definition stageEntirelyBlank :: "WorkflowStage \<Rightarrow> bool" where
  "stageEntirelyBlank w \<longleftrightarrow>
     isBlank (w_title w) \<and> isBlank (w_instruction w) \<and> isBlank (w_expectedOutput w)"

definition stepOf :: "nat \<Rightarrow> WorkflowStage \<Rightarrow> WorkflowStep" where
  "stepOf i w =
     \<lparr>step_index = i, step_title = w_title w, step_instruction = w_instruction w,
      step_expectedOutput = w_expectedOutput w\<rparr>"

definition numberedSteps :: "WorkflowStage list \<Rightarrow> WorkflowStep list" where
  "numberedSteps ws = map (\<lambda>(i, w). stepOf i w) (zip [1 ..< Suc (length ws)] ws)"

definition workflowSectionOf :: "PromptState \<Rightarrow> Section list" where
  "workflowSectionOf s =
     (if list_ex stageHasText (workflow s)
      then [WorkflowSection (numberedSteps (filter (\<lambda>w. \<not> stageEntirelyBlank w) (workflow s)))]
      else [])"

text \<open>
  Step 4: a variables section if some variable has a name that is not blank; variables
  with a blank name are skipped.
\<close>

definition variablesSectionOf :: "PromptState \<Rightarrow> Section list" where
  "variablesSectionOf s =
     (if list_ex (\<lambda>v. \<not> isBlank (v_name v)) (variables s)
      then [VariablesSection
              (map (\<lambda>v. \<lparr>line_name = v_name v, line_description = v_description v,
                          line_example = v_example v\<rparr>)
                 (filter (\<lambda>v. \<not> isBlank (v_name v)) (variables s)))]
      else [])"

text \<open>Step 5: the sections in the fixed order.\<close>

definition compile :: "PromptState \<Rightarrow> Section list" where
  "compile s = textSectionsOf s @ tagSectionsOf s @ workflowSectionOf s @ variablesSectionOf s"

text \<open>The numbered steps a document shows, section by section.\<close>

fun stepsOf :: "Section \<Rightarrow> WorkflowStep list" where
  "stepsOf (WorkflowSection steps) = steps"
| "stepsOf _ = []"

definition emittedSteps :: "Section list \<Rightarrow> WorkflowStep list" where
  "emittedSteps doc = concat (map stepsOf doc)"

section \<open>Properties of the reducer\<close>

lemma getChips_putChips: "getChips k (putChips k' x s) = (if k = k' then x else getChips k s)"
  by (cases k; cases k') simp_all

lemma getChips_setText: "getChips k (setText t x s) = getChips k s"
  by (cases k; cases t) simp_all

lemma getText_setText: "getText k (setText k' x s) = (if k = k' then x else getText k s)"
  by (cases k; cases k') simp_all

lemma getText_putChips: "getText k (putChips c x s) = getText k s"
  by (cases k; cases c) simp_all

lemma variables_setText: "variables (setText k x s) = variables s"
  by (cases k) simp_all

lemma workflow_setText: "workflow (setText k x s) = workflow s"
  by (cases k) simp_all

lemma variables_putChips: "variables (putChips c x s) = variables s"
  by (cases c) simp_all

lemma workflow_putChips: "workflow (putChips c x s) = workflow s"
  by (cases c) simp_all

lemma getText_variables_update: "getText k (s\<lparr>variables := x\<rparr>) = getText k s"
  by (cases k) simp_all

lemma getText_workflow_update: "getText k (s\<lparr>workflow := x\<rparr>) = getText k s"
  by (cases k) simp_all

lemma getChips_variables_update: "getChips k (s\<lparr>variables := x\<rparr>) = getChips k s"
  by (cases k) simp_all

lemma getChips_workflow_update: "getChips k (s\<lparr>workflow := x\<rparr>) = getChips k s"
  by (cases k) simp_all

lemmas field_frame =
  getChips_putChips getChips_setText getText_setText getText_putChips
  variables_setText workflow_setText variables_putChips workflow_putChips
  getText_variables_update getText_workflow_update
  getChips_variables_update getChips_workflow_update

lemma tagsUnique_iff: "tagsUnique s \<longleftrightarrow> (\<forall>k. distinct (getChips k s))"
proof
  assume u: "tagsUnique s"
  show "\<forall>k. distinct (getChips k s)"
  proof
    fix k
    from u show "distinct (getChips k s)"
      by (cases k) (simp_all add: tagsUnique_def)
  qed
next
  assume h: "\<forall>k. distinct (getChips k s)"
  from h [rule_format, of ToneTraits] h [rule_format, of StyleGuidelines]
    h [rule_format, of Constraints] h [rule_format, of Keywords]
  show "tagsUnique s" by (simp add: tagsUnique_def)
qed

text \<open>
  Claim C9. Adding a chip that the tag set already holds changes nothing: for every state,
  tag-set key and value contained in the state's sequence at that key, \<open>addChip\<close> returns
  the state it was given.
\<close>

theorem addChip_existing_noop:
  "val \<in> set (getChips key state) \<Longrightarrow> reducer newId state (AddChip key val) = state"
  by simp

text \<open>Claim C9 at a state whose tone traits hold the value added.\<close>

theorem addChip_existing_noop_witness:
  "''formal'' \<in> set (getChips ToneTraits (blankState\<lparr>toneTraits := [''warm'', ''formal'']\<rparr>))
   \<and> reducer ''n'' (blankState\<lparr>toneTraits := [''warm'', ''formal'']\<rparr>) (AddChip ToneTraits ''formal'')
     = blankState\<lparr>toneTraits := [''warm'', ''formal'']\<rparr>"
  using addChip_existing_noop [of "''formal''" ToneTraits
      "blankState\<lparr>toneTraits := [''warm'', ''formal'']\<rparr>" "''n''"]
  by simp

text \<open>
  Claim C10. The reducer does not keep the two row sequences non-empty: when the variables
  of a state are exactly one entry, \<open>removeVariable\<close> with the id of that entry leaves no
  variable, and when the workflow is exactly one stage, \<open>removeWorkflow\<close> with the id of
  that stage leaves no stage.
\<close>

theorem remove_last_row_empties:
  "(variables state = [v] \<longrightarrow> variables (reducer newId state (RemoveVariable (v_id v))) = [])
   \<and> (workflow state = [w] \<longrightarrow> workflow (reducer newId state (RemoveWorkflow (w_id w))) = [])"
  by simp

text \<open>Claim C10 at the default state, which has one blank row of each kind.\<close>

theorem remove_last_row_empties_witness:
  "variables blankState = [createBlankVariable ''v1'']
   \<and> variables (reducer ''n'' blankState (RemoveVariable ''v1'')) = []
   \<and> workflow blankState = [createBlankWorkflowStage ''w1'']
   \<and> workflow (reducer ''n'' blankState (RemoveWorkflow ''w1'')) = []"
  using remove_last_row_empties [of blankState "createBlankVariable ''v1''" "''n''"
      "createBlankWorkflowStage ''w1''"]
  by (simp add: blankState_def createDefaultPromptState_def createBlankVariable_def
      createBlankWorkflowStage_def)

text \<open>
  Claim C5. Every action of the reducer returns a snapshot that differs from the state it
  was given at most at the key its branch writes (the input, a value, is left as it was):
  every other field of the result equals that field of the input, and \<open>hydrate\<close> returns
  its payload. In particular, after \<open>update\<close> on key \<open>k\<close> the field \<open>k\<close> holds the new
  value and every field other than \<open>k\<close> equals the corresponding field of the input.
\<close>

theorem reducer_copy_on_write:
  "(written action = Some f \<and> g \<noteq> f \<longrightarrow> sameField g state (reducer newId state action))
   \<and> reducer newId state (Hydrate payload) = payload
   \<and> getText k (reducer newId state (Update k val)) = val
   \<and> (g \<noteq> TextField k \<longrightarrow> sameField g state (reducer newId state (Update k val)))"
proof -
  have frame: "sameField g state (reducer newId state action)"
    if "written action = Some f" and "g \<noteq> f"
    using that by (cases action; cases g) (auto simp: field_frame Let_def)
  have upd: "sameField g state (reducer newId state (Update k val))" if "g \<noteq> TextField k"
    using that by (cases g) (auto simp: field_frame)
  show ?thesis
    using frame upd by (simp add: getText_setText)
qed

text \<open>Claim C5 at an edit of the objective of a state with a title and a tone trait.\<close>

theorem reducer_copy_on_write_witness:
  "written (Update CoreObjective ''Summarise'') = Some (TextField CoreObjective)
   \<and> TextField ProjectTitle \<noteq> TextField CoreObjective
   \<and> sameField (TextField ProjectTitle) (blankState\<lparr>projectTitle := ''Apollo''\<rparr>)
       (reducer ''n'' (blankState\<lparr>projectTitle := ''Apollo''\<rparr>) (Update CoreObjective ''Summarise''))
   \<and> projectTitle
       (reducer ''n'' (blankState\<lparr>projectTitle := ''Apollo''\<rparr>) (Update CoreObjective ''Summarise''))
     = ''Apollo''
   \<and> coreObjective
       (reducer ''n'' (blankState\<lparr>projectTitle := ''Apollo''\<rparr>) (Update CoreObjective ''Summarise''))
     = ''Summarise''"
  using reducer_copy_on_write [of "Update CoreObjective ''Summarise''" "TextField CoreObjective"
      "TextField ProjectTitle" "blankState\<lparr>projectTitle := ''Apollo''\<rparr>" "''n''"
      blankState CoreObjective "''Summarise''"]
  by simp

text \<open>
  Claim C2 as stated fails: \<open>setChips\<close> stores the list it is given, so from a state with
  no duplicate tag it reaches a state whose tone traits hold the same entry twice.
\<close>

theorem setChips_duplicates_counterexample:
  "tagsUnique blankState
   \<and> \<not> tagsUnique (reducer ''n'' blankState (SetChips ToneTraits [''calm'', ''calm'']))"
  by (simp add: tagsUnique_def blankState_def createDefaultPromptState_def)

text \<open>
  Claim C2, amended. From a state whose four tag sets have no duplicate entry, every
  action yields a state whose tag sets have none, provided the list a \<open>setChips\<close> action
  carries has no duplicate entry and the payload of a \<open>hydrate\<close> action has none in its
  tag sets; the other nine actions need no proviso.
\<close>

theorem reducer_keeps_tagsUnique:
  assumes "tagsUnique state" and "suppliesUniqueTags action"
  shows "tagsUnique (reducer newId state action)"
proof (cases action)
  case (Update k x)
  with assms(1) show ?thesis by (simp add: tagsUnique_iff getChips_setText)
next
  case (AddChip k x)
  with assms(1) show ?thesis by (simp add: tagsUnique_iff getChips_putChips Let_def)
next
  case (RemoveChip k x)
  with assms(1) show ?thesis by (simp add: tagsUnique_iff getChips_putChips)
next
  case (SetChips k xs)
  with assms show ?thesis by (simp add: tagsUnique_iff getChips_putChips)
next
  case (Hydrate p)
  with assms(2) show ?thesis by simp
qed (use assms(1) in \<open>simp_all add: tagsUnique_def\<close>)

text \<open>Claim C2, amended, at the adding of a second tone trait.\<close>

theorem reducer_keeps_tagsUnique_witness:
  "tagsUnique (blankState\<lparr>toneTraits := [''warm'']\<rparr>)
   \<and> suppliesUniqueTags (AddChip ToneTraits ''calm'')
   \<and> tagsUnique (reducer ''n'' (blankState\<lparr>toneTraits := [''warm'']\<rparr>) (AddChip ToneTraits ''calm''))
   \<and> toneTraits (reducer ''n'' (blankState\<lparr>toneTraits := [''warm'']\<rparr>) (AddChip ToneTraits ''calm''))
       = [''warm'', ''calm'']"
  using reducer_keeps_tagsUnique [of "blankState\<lparr>toneTraits := [''warm'']\<rparr>"
      "AddChip ToneTraits ''calm''" "''n''"]
  by (simp add: tagsUnique_def blankState_def createDefaultPromptState_def)

section \<open>Variable names\<close>










lemma normalizeName_fixes_normal:
  assumes "isNormalName n"
  shows "normalizeName n = n"
proof -
  have r: "replaceSpaceRuns m = m" if "\<forall>c \<in> set m. \<not> isWhite c" for m
    using that by (induction m) simp_all
  have u: "map upperChar m = m" if "\<forall>c \<in> set m. \<not> isLowerLetter c" for m
    using that by (induction m) (simp_all add: upperChar_def)
  from assms have w: "\<forall>c \<in> set n. \<not> isWhite c" and l: "\<forall>c \<in> set n. \<not> isLowerLetter c"
    by (simp_all add: isNormalName_def list_all_iff)
  from w have "replaceSpaceRuns n = n" by (rule r)
  moreover from l have "map upperChar n = n" by (rule u)
  ultimately show ?thesis by (simp add: normalizeName_def toUpperCase_def)
qed




section \<open>Merging a template over the default state\<close>

lemma getText_merged:
  "getText k (merged base sections) = spreadOver (getText k base) (getText k sections)"
  by (cases k) (simp_all add: merged_def)

lemma getChips_merged:
  "getChips k (merged base sections) = nullish (readProp (getChips k sections)) (getChips k base)"
  by (cases k) (simp_all add: merged_def)

lemma handleLoadTemplate_found:
  "find (\<lambda>entry. t_id entry = i) promptTemplates = Some template \<Longrightarrow>
     handleLoadTemplate promptTemplates base i = Some (merged base (t_sections template))"
  by (simp add: handleLoadTemplate_def)

text \<open>What of the merge holds on the code: the fall back of an absent field,\<close>

lemma merged_absent_text:
  "getText k sections = Absent \<Longrightarrow> getText k (merged base sections) = Some (getText k base)"
  by (simp add: getText_merged spreadOver_def)

lemma merged_present_text:
  "getText k sections = Own (Some x) \<Longrightarrow> getText k (merged base sections) = Some x"
  by (simp add: getText_merged spreadOver_def)

text \<open>the fall back of a list-typed field that is absent or undefined,\<close>

lemma merged_chips_fallback:
  "readProp (getChips k sections) = None \<Longrightarrow> getChips k (merged base sections) = getChips k base"
  by (simp add: getChips_merged nullish_def)

lemma merged_rows_fallback:
  "readProp (variables sections) = None \<Longrightarrow> variables (merged base sections) = variables base"
  "readProp (workflow sections) = None \<Longrightarrow> workflow (merged base sections) = workflow base"
  by (simp_all add: merged_def nullish_def)

text \<open>and the wholesale replacement of a list-typed field that is present, ids included.\<close>

lemma merged_chips_present:
  "getChips k sections = Own (Some cs) \<Longrightarrow> getChips k (merged base sections) = cs"
  by (simp add: getChips_merged nullish_def readProp_def)

lemma merged_rows_present:
  "variables sections = Own (Some vs) \<Longrightarrow> variables (merged base sections) = vs"
  "workflow sections = Own (Some ws) \<Longrightarrow> workflow (merged base sections) = ws"
  by (simp_all add: merged_def nullish_def readProp_def)

lemma merged_ids:
  "map v_id (variables (merged base sections))
     = map v_id (nullish (readProp (variables sections)) (variables base))"
  "map w_id (workflow (merged base sections))
     = map w_id (nullish (readProp (workflow sections)) (workflow base))"
  by (simp_all add: merged_def)

text \<open>
  Claim C3 at the input where the code leaves it. The claim: every field absent or
  undefined in the template's partial falls back to the base default. A template whose
  sections are \<open>{ coreObjective: undefined }\<close> has the objective as an own property, so
  the spread copies \<open>undefined\<close> over the default: the merged objective is undefined, not
  the default's, where with no property at all it is the default's.
\<close>

theorem merged_undefined_text_not_default:
  "getText CoreObjective (merged blankState (noSections\<lparr>coreObjective := Own None\<rparr>)) = None
   \<and> getText CoreObjective (merged blankState noSections)
       = Some (getText CoreObjective blankState)"
  by (simp add: merged_def noSections_def spreadOver_def)

section \<open>Responses of the refine endpoint\<close>

text \<open>What of the handler's contract holds on the code: the three refusals,\<close>

lemma POST_invalid_json:
  "POST fetch None = errorResponse ''Invalid JSON payload.'' 400"
  by (simp add: POST_def)

lemma POST_blank_prompt:
  "trim (orElse (prompt payload) []) = [] \<Longrightarrow>
     POST fetch (Some payload) = errorResponse ''Prompt is required for refinement.'' 400"
  by (simp add: POST_def Let_def)

lemma POST_no_apiKey:
  "trim (orElse (prompt payload) []) \<noteq> [] \<Longrightarrow> orElse (apiKey payload) [] = [] \<Longrightarrow>
     POST fetch (Some payload)
       = errorResponse ''API key is required to call the selected provider.'' 400"
  by (simp add: POST_def Let_def)

lemma POST_no_such_property:
  "trim (orElse (prompt payload) []) \<noteq> [] \<Longrightarrow> orElse (apiKey payload) [] \<noteq> [] \<Longrightarrow>
   PROVIDER_ENDPOINTS (nullish (provider payload) ''openai'') = None \<Longrightarrow>
     POST fetch (Some payload)
       = errorResponse (''Unsupported provider: '' @ nullish (provider payload) ''openai'') 400"
  by (simp add: POST_def Let_def)

text \<open>the shape of every response, and the response to a successful call.\<close>

lemma POST_error_or_result:
  "(error (POST fetch request) \<noteq> None
      \<and> analysis (POST fetch request) = None \<and> refinedPrompt (POST fetch request) = None)
   \<or> (error (POST fetch request) = None \<and> status (POST fetch request) = 200)"
  by (simp add: POST_def Let_def errorResponse_def
      split: option.split Endpoint.split FetchResult.split)

lemma POST_success:
  assumes "trim (orElse (prompt payload) []) \<noteq> []" and "orElse (apiKey payload) [] \<noteq> []"
    and "nullish (provider payload) ''openai'' \<in> {''openai'', ''openrouter''}"
    and "\<forall>r. fetch r = OkContent content"
  shows "POST fetch (Some payload)
           = \<lparr>analysis = content, refinedPrompt = extractRefinedPrompt content,
              error = None, status = 200\<rparr>"
  using assms by (auto simp: POST_def Let_def PROVIDER_ENDPOINTS_def)

text \<open>
  Claim C6 at the input where the code leaves it. The claim: an error with status 400
  whenever the provider is not one of \<open>openai\<close> and \<open>openrouter\<close>. For the provider
  \<open>constructor\<close>, with a prompt and a key, \<open>PROVIDER_ENDPOINTS[provider]\<close> is the inherited
  \<open>Object\<close> function, the check \<open>!endpoint\<close> lets it pass, \<open>fetch\<close> throws on it, and the
  handler answers with status 500, whatever the provider would have said.
\<close>

theorem POST_inherited_provider_500:
  "POST fetch (Some \<lparr>prompt = Some ''Summarise the report'', instructions = None,
       provider = Some ''constructor'', model = None, temperature = None,
       apiKey = Some ''sk-test''\<rparr>)
   = errorResponse ''Failed to contact the provider. Verify network and credentials.'' 500"
  by (simp add: POST_def nullish_def orElse_def trim_def isWhite_def PROVIDER_ENDPOINTS_def
      objectPrototypeKeys_def)

section \<open>Workflow numbering of the compiler\<close>

lemma stepsOf_textSections: "concat (map stepsOf (textSectionsOf s)) = []"
  by (simp add: textSectionsOf_def)

lemma stepsOf_tagSections: "concat (map stepsOf (tagSectionsOf s)) = []"
  by (simp add: tagSectionsOf_def)

lemma stepsOf_variablesSection: "concat (map stepsOf (variablesSectionOf s)) = []"
  by (simp add: variablesSectionOf_def)

lemma emittedSteps_compile:
  "emittedSteps (compile s) = concat (map stepsOf (workflowSectionOf s))"
  by (simp add: emittedSteps_def compile_def stepsOf_textSections stepsOf_tagSections
      stepsOf_variablesSection)

lemma isBlank_empty: "isBlank []"
  by (simp add: isBlank_def trim_def)

text \<open>The steps of a document are numbered 1, 2, ... with no gap, whatever was skipped.\<close>

lemma numberedSteps_indices:
  "map step_index (numberedSteps ws) = [1 ..< Suc (length ws)]"
proof -
  have "map step_index (numberedSteps ws) = map fst (zip [1 ..< Suc (length ws)] ws)"
    by (simp add: numberedSteps_def stepOf_def case_prod_unfold)
  also have "\<dots> = [1 ..< Suc (length ws)]"
    by (rule map_fst_zip) (simp del: upt_Suc)
  finally show ?thesis .
qed

lemma emittedSteps_contiguous:
  "map step_index (emittedSteps (compile s))
     = (if list_ex stageHasText (workflow s)
        then [1 ..< Suc (length (filter (\<lambda>w. \<not> stageEntirelyBlank w) (workflow s)))]
        else [])"
  by (simp add: emittedSteps_compile workflowSectionOf_def numberedSteps_indices)

text \<open>
  Claim C7 as stated fails on the compiler as the spec gives it: the claim asks only that
  the second of three stages be entirely blank. When the other two are entirely blank as
  well, no step is emitted.
\<close>

theorem three_blank_stages_counterexample:
  "length (workflow (blankState\<lparr>workflow :=
       [createBlankWorkflowStage ''a'', createBlankWorkflowStage ''b'',
        createBlankWorkflowStage ''c'']\<rparr>)) = 3
   \<and> stageEntirelyBlank (createBlankWorkflowStage ''b'')
   \<and> emittedSteps (compile (blankState\<lparr>workflow :=
       [createBlankWorkflowStage ''a'', createBlankWorkflowStage ''b'',
        createBlankWorkflowStage ''c'']\<rparr>)) = []"
  by (simp add: emittedSteps_compile workflowSectionOf_def stageHasText_def
      stageEntirelyBlank_def createBlankWorkflowStage_def isBlank_empty)

text \<open>
  Claim C7, amended. For every state whose workflow has three stages, the second entirely
  blank (blank title, instruction and expected output), the first and the third not
  entirely blank, and one of these two with a title or an instruction that is not blank,
  \<open>compile\<close> emits exactly two numbered workflow steps, numbered 1 and 2, which are the
  first and the third stage in array order.
\<close>

theorem workflow_numbering_skips_blank:
  assumes "workflow s = [a, b, c]" and "stageEntirelyBlank b"
    and "\<not> stageEntirelyBlank a" and "\<not> stageEntirelyBlank c"
    and "stageHasText a \<or> stageHasText c"
  shows "emittedSteps (compile s) = [stepOf 1 a, stepOf 2 c]"
proof -
  have kept: "filter (\<lambda>w. \<not> stageEntirelyBlank w) (workflow s) = [a, c]"
    using assms(1-4) by simp
  have gate: "list_ex stageHasText (workflow s)"
    using assms(1,5) by auto
  have "numberedSteps [a, c] = [stepOf 1 a, stepOf 2 c]"
    by (simp add: numberedSteps_def upt_rec numeral_2_eq_2)
  then show ?thesis
    by (simp add: emittedSteps_compile workflowSectionOf_def gate kept)
qed

text \<open>Claim C7, amended, at a plan stage, a blank stage and a stage with a title only.\<close>

theorem workflow_numbering_skips_blank_witness:
  "workflow (blankState\<lparr>workflow :=
       [\<lparr>w_id = ''a'', w_title = ''Plan'', w_instruction = ''List the steps'',
         w_expectedOutput = ''Outline''\<rparr>,
        createBlankWorkflowStage ''b'',
        \<lparr>w_id = ''c'', w_title = ''Write'', w_instruction = [], w_expectedOutput = []\<rparr>]\<rparr>)
     = [\<lparr>w_id = ''a'', w_title = ''Plan'', w_instruction = ''List the steps'',
         w_expectedOutput = ''Outline''\<rparr>,
        createBlankWorkflowStage ''b'',
        \<lparr>w_id = ''c'', w_title = ''Write'', w_instruction = [], w_expectedOutput = []\<rparr>]
   \<and> stageEntirelyBlank (createBlankWorkflowStage ''b'')
   \<and> emittedSteps (compile (blankState\<lparr>workflow :=
       [\<lparr>w_id = ''a'', w_title = ''Plan'', w_instruction = ''List the steps'',
         w_expectedOutput = ''Outline''\<rparr>,
        createBlankWorkflowStage ''b'',
        \<lparr>w_id = ''c'', w_title = ''Write'', w_instruction = [], w_expectedOutput = []\<rparr>]\<rparr>))
     = [\<lparr>step_index = 1, step_title = ''Plan'', step_instruction = ''List the steps'',
         step_expectedOutput = ''Outline''\<rparr>,
        \<lparr>step_index = 2, step_title = ''Write'', step_instruction = [],
         step_expectedOutput = []\<rparr>]"
proof -
  have b1: "\<not> isBlank ''Plan''" and b2: "\<not> isBlank ''Write''"
    by (simp_all add: isBlank_def trim_def isWhite_def)
  show ?thesis
    using workflow_numbering_skips_blank [of "blankState\<lparr>workflow :=
       [\<lparr>w_id = ''a'', w_title = ''Plan'', w_instruction = ''List the steps'',
         w_expectedOutput = ''Outline''\<rparr>,
        createBlankWorkflowStage ''b'',
        \<lparr>w_id = ''c'', w_title = ''Write'', w_instruction = [], w_expectedOutput = []\<rparr>]\<rparr>"
       "\<lparr>w_id = ''a'', w_title = ''Plan'', w_instruction = ''List the steps'',
         w_expectedOutput = ''Outline''\<rparr>"
       "createBlankWorkflowStage ''b''"
       "\<lparr>w_id = ''c'', w_title = ''Write'', w_instruction = [], w_expectedOutput = []\<rparr>"]
    by (simp add: stageEntirelyBlank_def stageHasText_def createBlankWorkflowStage_def
        b1 b2 isBlank_empty stepOf_def)
qed

end
